theory Spec2Isabelle
  imports Complex_Main "HOL-Library.Multiset"
begin

section \<open>The guest cart store (frontend/store/cart-store.ts)\<close>

text \<open>
  A guest cart line, as the interface \<open>GuestCartItem\<close> declares it. The two optional
  fields are options. \<open>quantity\<close> is a JavaScript number that holds an integer (the
  cart page and the product pages only ever pass integers), modelled as \<open>int\<close>.
\<close>

record GuestCartItem =
  sku :: string
  sku_id :: string
  product_id :: string
  product_name :: string
  product_price :: string
  product_image :: "string option"
  quantity :: int
  vendor_name :: "string option"

text \<open>
  The data part of \<open>CartState\<close>. Every operation of the store is a call of zustand's
  \<open>set\<close> with a function of the old state, so it is modelled as a function from the
  old state to the new one; \<open>persist\<close> writes the new state to local storage after
  each call, so the persisted cart is the state itself.
\<close>

record CartState =
  guestItems :: "GuestCartItem list"

definition initialCartState :: CartState where
  "initialCartState = \<lparr>guestItems = []\<rparr>"

definition addGuestItem :: "GuestCartItem \<Rightarrow> CartState \<Rightarrow> CartState" where
  "addGuestItem item state =
     (case find (\<lambda>i. sku i = sku item) (guestItems state) of
        Some existingItem \<Rightarrow>
          \<lparr>guestItems = map (\<lambda>i. if sku i = sku item
                                  then i\<lparr>quantity := quantity i + quantity item\<rparr>
                                  else i) (guestItems state)\<rparr>
      | None \<Rightarrow> \<lparr>guestItems = guestItems state @ [item]\<rparr>)"

definition removeGuestItem :: "string \<Rightarrow> CartState \<Rightarrow> CartState" where
  "removeGuestItem s state = \<lparr>guestItems = filter (\<lambda>i. sku i \<noteq> s) (guestItems state)\<rparr>"

definition updateGuestItemQuantity :: "string \<Rightarrow> int \<Rightarrow> CartState \<Rightarrow> CartState" where
  "updateGuestItemQuantity s q state =
     \<lparr>guestItems = map (\<lambda>i. if sku i = s then i\<lparr>quantity := q\<rparr> else i) (guestItems state)\<rparr>"

definition clearGuestCart :: "CartState \<Rightarrow> CartState" where
  "clearGuestCart state = \<lparr>guestItems = []\<rparr>"

definition getGuestItemCount :: "CartState \<Rightarrow> int" where
  "getGuestItemCount state = foldl (\<lambda>count item. count + quantity item) 0 (guestItems state)"

text \<open>A sequence of \<open>addGuestItem\<close> calls, in the order of the list.\<close>

definition addGuestItems :: "GuestCartItem list \<Rightarrow> CartState \<Rightarrow> CartState" where
  "addGuestItems adds state = foldl (\<lambda>st item. addGuestItem item st) state adds"

section \<open>JavaScript numbers and \<open>parseFloat\<close>\<close>

text \<open>
  The total is a JavaScript number. The model keeps the three special values of a
  double, which decide how an unparsable price behaves, and takes every finite value as
  an exact rational: rounding to 53 bits, overflow to an infinity, underflow and the sign
  of zero are not modelled. \<open>+\<close> and \<open>*\<close> follow IEEE 754 on the special values:
  \<open>NaN\<close> absorbs everything, opposite infinities add to \<open>NaN\<close>, and an infinity
  times zero is \<open>NaN\<close>.
\<close>

datatype number = NaN | PosInfinity | NegInfinity | Fin rat

fun add_number :: "number \<Rightarrow> number \<Rightarrow> number" where
  "add_number (Fin x) (Fin y) = Fin (x + y)"
| "add_number NaN b = NaN"
| "add_number a NaN = NaN"
| "add_number PosInfinity NegInfinity = NaN"
| "add_number NegInfinity PosInfinity = NaN"
| "add_number PosInfinity b = PosInfinity"
| "add_number a PosInfinity = PosInfinity"
| "add_number NegInfinity b = NegInfinity"
| "add_number a NegInfinity = NegInfinity"

fun is_zero :: "number \<Rightarrow> bool" where
  "is_zero (Fin x) = (x = 0)"
| "is_zero a = False"

fun is_negative :: "number \<Rightarrow> bool" where
  "is_negative (Fin x) = (x < 0)"
| "is_negative NegInfinity = True"
| "is_negative a = False"

fun mul_number :: "number \<Rightarrow> number \<Rightarrow> number" where
  "mul_number (Fin x) (Fin y) = Fin (x * y)"
| "mul_number NaN b = NaN"
| "mul_number a NaN = NaN"
| "mul_number a b =
     (if is_zero a \<or> is_zero b then NaN
      else if is_negative a = is_negative b then PosInfinity else NegInfinity)"

instantiation number :: "{comm_monoid_add, times}"
begin

definition zero_number :: number where
  "zero_number = Fin 0"

definition plus_number :: "number \<Rightarrow> number \<Rightarrow> number" where
  "plus_number = add_number"

definition times_number :: "number \<Rightarrow> number \<Rightarrow> number" where
  "times_number = mul_number"

instance
proof
  fix a b c :: number
  show "a + b + c = a + (b + c)"
    unfolding plus_number_def by (cases a; cases b; cases c) simp_all
  show "a + b = b + a"
    unfolding plus_number_def by (cases a; cases b) simp_all
  show "0 + a = a"
    unfolding plus_number_def zero_number_def by (cases a) simp_all
qed

end

text \<open>The finite numbers, and the rational a finite number stands for.\<close>

fun isFinite :: "number \<Rightarrow> bool" where
  "isFinite (Fin x) = True"
| "isFinite a = False"

definition finite_value :: "number \<Rightarrow> rat" where
  "finite_value a = (case a of Fin x \<Rightarrow> x | _ \<Rightarrow> 0)"

text \<open>An integer quantity as the number it is in JavaScript.\<close>

definition of_quantity :: "int \<Rightarrow> number" where
  "of_quantity q = Fin (of_int q)"

text \<open>
  \<open>parseFloat\<close> (ECMAScript 19.2.4): leading white space is dropped, the longest
  prefix that is a \<open>StrDecimalLiteral\<close> is read, and \<open>NaN\<close> is returned when there
  is none. A literal is an optional sign, then \<open>Infinity\<close>, or digits with an optional
  fraction, or a dot followed by digits, each with an optional exponent part; an \<open>e\<close>
  with no digits after it is not part of the prefix. Strings are byte strings here, so
  the white space recognised is the ASCII one.
\<close>

definition isStrWhiteSpaceChar :: "char \<Rightarrow> bool" where
  "isStrWhiteSpaceChar c \<longleftrightarrow> c \<in> set [CHR 0x09, CHR 0x0A, CHR 0x0B, CHR 0x0C, CHR 0x0D, CHR 0x20]"

definition isDecimalDigit :: "char \<Rightarrow> bool" where
  "isDecimalDigit c \<longleftrightarrow> c \<in> set ''0123456789''"

definition digitsValue :: "string \<Rightarrow> nat" where
  "digitsValue ds = foldl (\<lambda>n c. 10 * n + (of_char c - 48)) 0 ds"

definition scale10 :: "rat \<Rightarrow> int \<Rightarrow> rat" where
  "scale10 x e = (if 0 \<le> e then x * 10 ^ nat e else x / 10 ^ nat (- e))"

definition parseExponent :: "string \<Rightarrow> int" where
  "parseExponent rest =
     (case rest of
        [] \<Rightarrow> 0
      | e # r \<Rightarrow>
          if e = CHR ''e'' \<or> e = CHR ''E'' then
            (let neg = (case r of [] \<Rightarrow> False | c # _ \<Rightarrow> c = CHR ''-'');
                 signed = (case r of [] \<Rightarrow> False | c # _ \<Rightarrow> c = CHR ''-'' \<or> c = CHR ''+'');
                 ds = takeWhile isDecimalDigit (if signed then tl r else r)
             in if ds = [] then 0
                else if neg then - int (digitsValue ds) else int (digitsValue ds))
          else 0)"

definition parseUnsigned :: "string \<Rightarrow> number" where
  "parseUnsigned str =
     (if take 8 str = ''Infinity'' then PosInfinity
      else
        (let ip = takeWhile isDecimalDigit str;
             r1 = dropWhile isDecimalDigit str
         in case r1 of
              c # r2 \<Rightarrow>
                if c = CHR ''.'' then
                  (let fp = takeWhile isDecimalDigit r2;
                       r3 = dropWhile isDecimalDigit r2
                   in if ip = [] \<and> fp = [] then NaN
                      else Fin (scale10 (of_nat (digitsValue ip)
                                  + of_nat (digitsValue fp) / 10 ^ length fp) (parseExponent r3)))
                else if ip = [] then NaN
                else Fin (scale10 (of_nat (digitsValue ip)) (parseExponent r1))
            | [] \<Rightarrow> if ip = [] then NaN else Fin (of_nat (digitsValue ip))))"

definition negate :: "number \<Rightarrow> number" where
  "negate a = (case a of NaN \<Rightarrow> NaN | PosInfinity \<Rightarrow> NegInfinity
                 | NegInfinity \<Rightarrow> PosInfinity | Fin x \<Rightarrow> Fin (- x))"

definition parseFloat :: "string \<Rightarrow> number" where
  "parseFloat inputString =
     (let trimmedString = dropWhile isStrWhiteSpaceChar inputString
      in case trimmedString of
           [] \<Rightarrow> NaN
         | c # r \<Rightarrow>
             if c = CHR ''-'' then negate (parseUnsigned r)
             else if c = CHR ''+'' then parseUnsigned r
             else parseUnsigned trimmedString)"

definition getGuestCartTotal :: "CartState \<Rightarrow> number" where
  "getGuestCartTotal state =
     foldl (\<lambda>total item. total + parseFloat (product_price item) * of_quantity (quantity item))
       0 (guestItems state)"

section \<open>The pages that show the cart\<close>

text \<open>
  A line of the server's cart, as the pages read it (\<open>item.unit_price\<close>,
  \<open>item.quantity\<close>), and the query result \<open>cart\<close>, which is undefined until the
  query has answered and whose \<open>items\<close> may be missing.
\<close>

record CartItem =
  item_id :: string
  unit_price :: string
  item_quantity :: int

record Cart =
  items :: "CartItem list option"

text \<open>\<open>cart?.items\<close>\<close>

definition cart_items :: "Cart option \<Rightarrow> CartItem list option" where
  "cart_items cart = (case cart of None \<Rightarrow> None | Some c \<Rightarrow> items c)"

text \<open>\<open>calculateTotal\<close> of frontend/app/cart/page.tsx.\<close>

definition cartPage_calculateTotal :: "bool \<Rightarrow> Cart option \<Rightarrow> CartState \<Rightarrow> number" where
  "cartPage_calculateTotal isAuth cart cartState =
     (if isAuth then
        (case cart_items cart of
           None \<Rightarrow> 0
         | Some its \<Rightarrow>
             foldl (\<lambda>total item. total + parseFloat (unit_price item) * of_quantity (item_quantity item))
               0 its)
      else getGuestCartTotal cartState)"

text \<open>\<open>handleGuestUpdateQuantity\<close> of the cart page, the only caller of \<open>updateGuestItemQuantity\<close>.\<close>

definition handleGuestUpdateQuantity :: "string \<Rightarrow> int \<Rightarrow> int \<Rightarrow> CartState \<Rightarrow> CartState" where
  "handleGuestUpdateQuantity s currentQty change cartState =
     (let newQty = currentQty + change
      in if newQty > 0 then updateGuestItemQuantity s newQty cartState else cartState)"

text \<open>\<open>calculateTotal\<close> of frontend/app/checkout/page.tsx.\<close>

definition checkoutPage_calculateTotal :: "bool \<Rightarrow> Cart option \<Rightarrow> CartState \<Rightarrow> number" where
  "checkoutPage_calculateTotal isAuth cart cartState =
     (if isAuth then
        (case cart_items cart of
           None \<Rightarrow> 0
         | Some its \<Rightarrow>
             foldl (\<lambda>total item. total + parseFloat (unit_price item) * of_quantity (item_quantity item))
               0 its)
      else
        foldl (\<lambda>total item. total + parseFloat (product_price item) * of_quantity (quantity item))
          0 (guestItems cartState))"

text \<open>\<open>guestCount\<close> and \<open>itemCount\<close> of the navbar; \<open>n || 0\<close> is \<open>0\<close> when \<open>n\<close> is.\<close>

definition navbar_guestCount :: "bool \<Rightarrow> CartState \<Rightarrow> int" where
  "navbar_guestCount isAuth cartState =
     (if \<not> isAuth then foldl (\<lambda>count item. count + quantity item) 0 (guestItems cartState)
      else 0)"

definition navbar_itemCount :: "bool \<Rightarrow> Cart option \<Rightarrow> CartState \<Rightarrow> int" where
  "navbar_itemCount isAuth cart cartState =
     (if isAuth then
        (case cart_items cart of
           None \<Rightarrow> 0
         | Some its \<Rightarrow>
             (let n = foldl (\<lambda>count item. count + item_quantity item) 0 its
              in if n \<noteq> 0 then n else 0))
      else navbar_guestCount isAuth cartState)"

section \<open>The checkout mutation (frontend/app/checkout/page.tsx)\<close>

text \<open>
  \<open>checkoutMutation\<close> runs \<open>onSuccess\<close> when the call to the server resolves and
  \<open>onError\<close> when it rejects. The page state is the cart store together with the log
  of the calls the handlers make, in order.
\<close>

record CheckoutResponse =
  checkout_url :: "string option"
  order_id :: "string option"

datatype Effect =
    CallClearGuestCart
  | ToastSuccess string
  | ToastError string
  | WindowLocation string
  | RouterPush string
  | ConsoleError

record CheckoutPage =
  store :: CartState
  effects :: "Effect list"

datatype CheckoutResult = Resolved CheckoutResponse | Rejected "string option"

text \<open>A string that may be missing is truthy when it is there and not empty.\<close>

definition truthy :: "string option \<Rightarrow> bool" where
  "truthy v = (case v of None \<Rightarrow> False | Some str \<Rightarrow> str \<noteq> [])"

definition onSuccess :: "bool \<Rightarrow> CheckoutResponse \<Rightarrow> CheckoutPage \<Rightarrow> CheckoutPage" where
  "onSuccess isAuth data page =
     (let p = (if \<not> isAuth
               then page\<lparr>store := clearGuestCart (store page),
                         effects := effects page @ [CallClearGuestCart]\<rparr>
               else page)
      in if truthy (checkout_url data) then
           p\<lparr>effects := effects p @
                [ToastSuccess ''Redirecting to payment...'', WindowLocation (the (checkout_url data))]\<rparr>
         else if truthy (order_id data) then
           p\<lparr>effects := effects p @
                [ToastSuccess ''Order placed successfully!'',
                 ToastSuccess ''Order confirmation sent to your email!'',
                 RouterPush (if isAuth then ''/account/orders'' else ''/'')]\<rparr>
         else p)"

definition onError :: "string option \<Rightarrow> CheckoutPage \<Rightarrow> CheckoutPage" where
  "onError detail page =
     page\<lparr>effects := effects page @
            [ToastError (if truthy detail then the detail else ''Checkout failed''), ConsoleError]\<rparr>"

definition checkoutMutation :: "bool \<Rightarrow> CheckoutResult \<Rightarrow> CheckoutPage \<Rightarrow> CheckoutPage" where
  "checkoutMutation isAuth result page =
     (case result of
        Resolved data \<Rightarrow> onSuccess isAuth data page
      | Rejected detail \<Rightarrow> onError detail page)"

text \<open>The calls a handler adds to the log.\<close>

definition newEffects :: "CheckoutPage \<Rightarrow> CheckoutPage \<Rightarrow> Effect list" where
  "newEffects before after = drop (length (effects before)) (effects after)"

section \<open>The auth store and the two stores together\<close>

record User =
  user_id :: string
  username :: string
  email :: string
  first_name :: string
  last_name :: string
  is_vendor :: bool
  is_customer :: bool

record AuthState =
  user :: "User option"
  isAuthenticated :: bool
  isLoading :: bool

definition initialAuthState :: AuthState where
  "initialAuthState = \<lparr>user = None, isAuthenticated = False, isLoading = False\<rparr>"

text \<open>
  The calls to the server are parameters: \<open>profile\<close> is what \<open>getProfile\<close> answers
  (\<open>None\<close> when it rejects), \<open>loginOk\<close> and \<open>logoutOk\<close> say whether the login and
  logout requests resolve. The second component of a result says whether the action
  throws.
\<close>

definition fetchUser :: "User option \<Rightarrow> AuthState \<Rightarrow> AuthState \<times> bool" where
  "fetchUser profile st =
     (let st1 = st\<lparr>isLoading := True\<rparr>
      in case profile of
           Some u \<Rightarrow> (st1\<lparr>user := Some u, isAuthenticated := True, isLoading := False\<rparr>, False)
         | None \<Rightarrow> (st1\<lparr>user := None, isAuthenticated := False, isLoading := False\<rparr>, True))"

definition login :: "bool \<Rightarrow> User option \<Rightarrow> AuthState \<Rightarrow> AuthState \<times> bool" where
  "login loginOk profile st =
     (let st1 = st\<lparr>isLoading := True\<rparr>
      in if \<not> loginOk then (st1\<lparr>isLoading := False\<rparr>, True)
         else (case fetchUser profile st1 of
                 (st2, threw) \<Rightarrow> (st2\<lparr>isLoading := False\<rparr>, threw)))"

definition logout :: "bool \<Rightarrow> AuthState \<Rightarrow> AuthState" where
  "logout logoutOk st =
     (if logoutOk then st\<lparr>user := None, isAuthenticated := False\<rparr>
      else st\<lparr>user := None, isAuthenticated := False\<rparr>)"

text \<open>
  The two stores are separate zustand stores, each persisted under its own key. A step
  of the application is one action of one of them; the navbar's \<open>handleLogout\<close> calls
  \<open>logout\<close> and reloads the page, after which both stores are read back from local
  storage as they were written.
\<close>

record AppState =
  auth :: AuthState
  cartStore :: CartState

definition initialAppState :: AppState where
  "initialAppState = \<lparr>auth = initialAuthState, cartStore = initialCartState\<rparr>"

datatype Event =
    AddGuestItem GuestCartItem
  | RemoveGuestItem string
  | UpdateGuestItemQuantity string int
  | ClearGuestCart
  | Login bool "User option"
  | Logout bool

fun step :: "Event \<Rightarrow> AppState \<Rightarrow> AppState" where
  "step (AddGuestItem item) s = s\<lparr>cartStore := addGuestItem item (cartStore s)\<rparr>"
| "step (RemoveGuestItem k) s = s\<lparr>cartStore := removeGuestItem k (cartStore s)\<rparr>"
| "step (UpdateGuestItemQuantity k q) s = s\<lparr>cartStore := updateGuestItemQuantity k q (cartStore s)\<rparr>"
| "step ClearGuestCart s = s\<lparr>cartStore := clearGuestCart (cartStore s)\<rparr>"
| "step (Login loginOk profile) s = s\<lparr>auth := fst (login loginOk profile (auth s))\<rparr>"
| "step (Logout logoutOk) s = s\<lparr>auth := logout logoutOk (auth s)\<rparr>"

definition run :: "Event list \<Rightarrow> AppState \<Rightarrow> AppState" where
  "run evs s = foldl (\<lambda>st ev. step ev st) s evs"

section \<open>Additions and lines as triples\<close>

text \<open>
  The part of an added item, and of a cart line, that the total depends on: SKU, quantity
  and price string. \<open>lineKeys\<close> is the multiset of these triples over the lines of a
  cart, and \<open>addKey\<close> is what \<open>addGuestItem\<close> does to it. A list of additions has
  consistent prices when additions with the same SKU carry the same price.
\<close>

type_synonym addition = "string \<times> int \<times> string"

definition lineKey :: "GuestCartItem \<Rightarrow> addition" where
  "lineKey i = (sku i, quantity i, product_price i)"

definition consistentPrices :: "GuestCartItem list \<Rightarrow> bool" where
  "consistentPrices adds \<longleftrightarrow>
     (\<forall>a\<in>set adds. \<forall>b\<in>set adds. sku a = sku b \<longrightarrow> product_price a = product_price b)"

definition lineAmount :: "addition \<Rightarrow> number" where
  "lineAmount k = (case k of (s, q, p) \<Rightarrow> parseFloat p * of_quantity q)"

definition bumpKey :: "addition \<Rightarrow> addition \<Rightarrow> addition" where
  "bumpKey k l = (case l of (s, q, p) \<Rightarrow> if s = fst k then (s, q + fst (snd k), p) else (s, q, p))"

definition addKey :: "addition \<Rightarrow> addition multiset \<Rightarrow> addition multiset" where
  "addKey k M = (if fst k \<in> fst ` set_mset M then image_mset (bumpKey k) M else add_mset k M)"

definition lineKeys :: "CartState \<Rightarrow> addition multiset" where
  "lineKeys st = mset (map lineKey (guestItems st))"

section \<open>The quantity invariant\<close>

text \<open>
  Every line has a quantity of at least one. An event is guarded when the quantity it
  carries is at least one: an added item, or the new quantity of an update.
\<close>

definition quantitiesPositive :: "CartState \<Rightarrow> bool" where
  "quantitiesPositive st \<longleftrightarrow> (\<forall>i\<in>set (guestItems st). 1 \<le> quantity i)"

definition guardedEvent :: "Event \<Rightarrow> bool" where
  "guardedEvent ev =
     (case ev of
        AddGuestItem item \<Rightarrow> 1 \<le> quantity item
      | UpdateGuestItemQuantity k q \<Rightarrow> 1 \<le> q
      | _ \<Rightarrow> True)"

section \<open>Example lines\<close>

definition tshirt :: "int \<Rightarrow> GuestCartItem" where
  "tshirt q = \<lparr>sku = ''TSHIRT-M'', sku_id = ''sku-1'', product_id = ''p-1'',
     product_name = ''T-shirt'', product_price = ''19.99'', product_image = None,
     quantity = q, vendor_name = None\<rparr>"

definition mug :: "int \<Rightarrow> GuestCartItem" where
  "mug q = \<lparr>sku = ''MUG'', sku_id = ''sku-2'', product_id = ''p-2'',
     product_name = ''Mug'', product_price = ''5.50'', product_image = None,
     quantity = q, vendor_name = Some ''Pots''\<rparr>"

definition tshirt_repriced :: "int \<Rightarrow> GuestCartItem" where
  "tshirt_repriced q = \<lparr>sku = ''TSHIRT-M'', sku_id = ''sku-9'', product_id = ''p-9'',
     product_name = ''Shirt, new name'', product_price = ''1.00'', product_image = Some ''shirt.png'',
     quantity = q, vendor_name = Some ''Other''\<rparr>"

definition corrupt :: "int \<Rightarrow> GuestCartItem" where
  "corrupt q = \<lparr>sku = ''BAD'', sku_id = ''sku-3'', product_id = ''p-3'',
     product_name = ''Corrupt'', product_price = ''abc'', product_image = None,
     quantity = q, vendor_name = None\<rparr>"

definition ten :: "int \<Rightarrow> GuestCartItem" where
  "ten q = \<lparr>sku = ''TEN'', sku_id = ''sku-4'', product_id = ''p-4'',
     product_name = ''Ten'', product_price = ''10.00'', product_image = None,
     quantity = q, vendor_name = None\<rparr>"

definition ten_twenty :: "int \<Rightarrow> GuestCartItem" where
  "ten_twenty q = \<lparr>sku = ''TEN'', sku_id = ''sku-4'', product_id = ''p-4'',
     product_name = ''Ten'', product_price = ''20.00'', product_image = None,
     quantity = q, vendor_name = None\<rparr>"

definition alice :: User where
  "alice = \<lparr>user_id = ''u-1'', username = ''alice'', email = ''alice@example.org'',
     first_name = ''Alice'', last_name = ''A'', is_vendor = False, is_customer = True\<rparr>"

section \<open>Facts about the example lines\<close>

lemma example_skus:
  "sku (tshirt q) = ''TSHIRT-M''" "sku (mug q) = ''MUG''" "sku (tshirt_repriced q) = ''TSHIRT-M''"
  by (simp_all add: tshirt_def mug_def tshirt_repriced_def)

lemma example_quantities:
  "quantity (tshirt q) = q" "quantity (mug q) = q" "quantity (tshirt_repriced q) = q"
  "(tshirt q)\<lparr>quantity := q'\<rparr> = tshirt q'" "(mug q)\<lparr>quantity := q'\<rparr> = mug q'"
  by (simp_all add: tshirt_def mug_def tshirt_repriced_def)

lemma example_prices:
  "product_price (tshirt q) = ''19.99''" "product_price (mug q) = ''5.50''"
  "product_price (tshirt_repriced q) = ''1.00''"
  by (simp_all add: tshirt_def mug_def tshirt_repriced_def)

lemma parseFloat_examples:
  "parseFloat ''10.00'' = Fin 10" "parseFloat ''5.50'' = Fin (11 / 2)" "parseFloat ''abc'' = NaN"
  "parseFloat ''20.00'' = Fin 20"
  by (simp_all add: parseFloat_def parseUnsigned_def isStrWhiteSpaceChar_def isDecimalDigit_def
        digitsValue_def scale10_def parseExponent_def)

lemma ten_lines:
  "sku (ten q) = ''TEN''" "sku (ten_twenty q) = ''TEN''"
  "quantity (ten q) = q" "quantity (ten_twenty q) = q"
  "product_price (ten q) = ''10.00''" "product_price (ten_twenty q) = ''20.00''"
  "(ten q)\<lparr>quantity := q'\<rparr> = ten q'" "(ten_twenty q)\<lparr>quantity := q'\<rparr> = ten_twenty q'"
  by (simp_all add: ten_def ten_twenty_def)

section \<open>Adding to the guest cart\<close>

lemma find_sku_None: "find (\<lambda>i. sku i = s) xs = None \<longleftrightarrow> (\<forall>i\<in>set xs. sku i \<noteq> s)"
  by (auto simp: find_None_iff)

lemma addGuestItem_absent:
  "\<forall>i\<in>set (guestItems st). sku i \<noteq> sku item \<Longrightarrow>
     guestItems (addGuestItem item st) = guestItems st @ [item]"
  using find_sku_None [of "sku item" "guestItems st"] by (simp add: addGuestItem_def)

lemma addGuestItem_present:
  "\<exists>i\<in>set (guestItems st). sku i = sku item \<Longrightarrow>
     guestItems (addGuestItem item st) =
       map (\<lambda>i. if sku i = sku item then i\<lparr>quantity := quantity i + quantity item\<rparr> else i)
         (guestItems st)"
  using find_sku_None [of "sku item" "guestItems st"]
  by (cases "find (\<lambda>i. sku i = sku item) (guestItems st)") (auto simp: addGuestItem_def)

lemma addGuestItems_Nil: "addGuestItems [] st = st"
  by (simp add: addGuestItems_def)

lemma addGuestItems_Cons: "addGuestItems (a # adds) st = addGuestItems adds (addGuestItem a st)"
  by (simp add: addGuestItems_def)

lemma addGuestItems_same_sku:
  "\<lbrakk>\<forall>a\<in>set adds. sku a = s; guestItems st = pre @ [l]; sku l = s; \<forall>i\<in>set pre. sku i \<noteq> s\<rbrakk> \<Longrightarrow>
     guestItems (addGuestItems adds st) =
       pre @ [l\<lparr>quantity := quantity l + sum_list (map quantity adds)\<rparr>]"
proof (induction adds arbitrary: st l)
  case Nil
  then show ?case by (simp add: addGuestItems_Nil)
next
  case (Cons a adds)
  from Cons.prems have a: "sku a = s" by simp
  have ex: "\<exists>i\<in>set (guestItems st). sku i = sku a"
    using Cons.prems(2,3) a by auto
  have pre: "map (\<lambda>i. if sku i = s then i\<lparr>quantity := quantity i + quantity a\<rparr> else i) pre = pre"
    using Cons.prems(4) by (intro map_idI) simp
  have one: "guestItems (addGuestItem a st) = pre @ [l\<lparr>quantity := quantity l + quantity a\<rparr>]"
    using Cons.prems(2,3) a pre by (simp add: addGuestItem_present [OF ex])
  have "guestItems (addGuestItems adds (addGuestItem a st)) =
          pre @ [l\<lparr>quantity := quantity l + quantity a\<rparr>
            \<lparr>quantity := quantity (l\<lparr>quantity := quantity l + quantity a\<rparr>) + sum_list (map quantity adds)\<rparr>]"
    using Cons.prems(1,3,4) by (intro Cons.IH [OF _ one]) simp_all
  then show ?case by (simp add: addGuestItems_Cons add.assoc)
qed

text \<open>
  C1. \<open>addGuestItem\<close>: when a line with the item's SKU exists, the quantity of the
  line is incremented by the item's quantity and nothing else moves; otherwise the item
  becomes the new last line. A sequence of calls that share one SKU, on a cart that has
  no line for it, leaves the old lines as they were and adds exactly one line, whose
  quantity is the sum of the added quantities.
\<close>

theorem addGuestItem_merges_or_appends:
  "((\<exists>i\<in>set (guestItems st). sku i = sku item) \<longrightarrow>
      guestItems (addGuestItem item st) =
        map (\<lambda>i. if sku i = sku item then i\<lparr>quantity := quantity i + quantity item\<rparr> else i)
          (guestItems st))
   \<and> ((\<forall>i\<in>set (guestItems st). sku i \<noteq> sku item) \<longrightarrow>
      guestItems (addGuestItem item st) = guestItems st @ [item])
   \<and> ((\<forall>a\<in>set (a0 # adds). sku a = s) \<and> (\<forall>i\<in>set (guestItems st). sku i \<noteq> s) \<longrightarrow>
      guestItems (addGuestItems (a0 # adds) st) =
        guestItems st @ [a0\<lparr>quantity := sum_list (map quantity (a0 # adds))\<rparr>]
      \<and> filter (\<lambda>i. sku i = s) (guestItems (addGuestItems (a0 # adds) st)) =
        [a0\<lparr>quantity := sum_list (map quantity (a0 # adds))\<rparr>])"
proof (intro conjI impI)
  assume "\<exists>i\<in>set (guestItems st). sku i = sku item"
  then show "guestItems (addGuestItem item st) =
        map (\<lambda>i. if sku i = sku item then i\<lparr>quantity := quantity i + quantity item\<rparr> else i)
          (guestItems st)"
    by (rule addGuestItem_present)
next
  assume "\<forall>i\<in>set (guestItems st). sku i \<noteq> sku item"
  then show "guestItems (addGuestItem item st) = guestItems st @ [item]"
    by (rule addGuestItem_absent)
next
  assume h: "(\<forall>a\<in>set (a0 # adds). sku a = s) \<and> (\<forall>i\<in>set (guestItems st). sku i \<noteq> s)"
  then have first: "guestItems (addGuestItem a0 st) = guestItems st @ [a0]"
    by (intro addGuestItem_absent) simp
  have "guestItems (addGuestItems adds (addGuestItem a0 st)) =
          guestItems st @ [a0\<lparr>quantity := quantity a0 + sum_list (map quantity adds)\<rparr>]"
    using h by (intro addGuestItems_same_sku [OF _ first]) auto
  then show eq: "guestItems (addGuestItems (a0 # adds) st) =
        guestItems st @ [a0\<lparr>quantity := sum_list (map quantity (a0 # adds))\<rparr>]"
    by (simp add: addGuestItems_Cons)
  show "filter (\<lambda>i. sku i = s) (guestItems (addGuestItems (a0 # adds) st)) =
        [a0\<lparr>quantity := sum_list (map quantity (a0 # adds))\<rparr>]"
    using h by (simp add: eq)
qed

theorem addGuestItem_merges_or_appends_witness:
  "guestItems (addGuestItem (tshirt 2) \<lparr>guestItems = [mug 1, tshirt 1]\<rparr>) = [mug 1, tshirt 3]
   \<and> guestItems (addGuestItem (tshirt 2) \<lparr>guestItems = [mug 1]\<rparr>) = [mug 1, tshirt 2]
   \<and> guestItems (addGuestItems [tshirt 1, tshirt 2] \<lparr>guestItems = [mug 1]\<rparr>) = [mug 1, tshirt 3]
   \<and> filter (\<lambda>i. sku i = ''TSHIRT-M'')
        (guestItems (addGuestItems [tshirt 1, tshirt 2] \<lparr>guestItems = [mug 1]\<rparr>)) = [tshirt 3]"
  using addGuestItem_merges_or_appends [of "\<lparr>guestItems = [mug 1, tshirt 1]\<rparr>" "tshirt 2" "tshirt 1" "[tshirt 2]" "''TSHIRT-M''"]
    addGuestItem_merges_or_appends [of "\<lparr>guestItems = [mug 1]\<rparr>" "tshirt 2" "tshirt 1" "[tshirt 2]" "''TSHIRT-M''"]
  by (simp add: tshirt_def mug_def)

section \<open>What a merge leaves alone\<close>

text \<open>
  C10. When \<open>addGuestItem\<close> merges into an existing line, the cart keeps its length
  and order, a line with another SKU is unchanged, a line with the item's SKU changes in
  its quantity only (price, name, ids, image and vendor are the stored ones), and the
  result depends on the incoming item through its SKU and quantity alone.
\<close>

theorem addGuestItem_merge_frame:
  assumes "\<exists>i\<in>set (guestItems st). sku i = sku item"
  shows "length (guestItems (addGuestItem item st)) = length (guestItems st)
    \<and> (\<forall>k<length (guestItems st).
          (sku (guestItems st ! k) = sku item \<longrightarrow>
             guestItems (addGuestItem item st) ! k =
               (guestItems st ! k)\<lparr>quantity := quantity (guestItems st ! k) + quantity item\<rparr>)
        \<and> (sku (guestItems st ! k) \<noteq> sku item \<longrightarrow>
             guestItems (addGuestItem item st) ! k = guestItems st ! k)
        \<and> sku (guestItems (addGuestItem item st) ! k) = sku (guestItems st ! k)
        \<and> sku_id (guestItems (addGuestItem item st) ! k) = sku_id (guestItems st ! k)
        \<and> product_id (guestItems (addGuestItem item st) ! k) = product_id (guestItems st ! k)
        \<and> product_name (guestItems (addGuestItem item st) ! k) = product_name (guestItems st ! k)
        \<and> product_price (guestItems (addGuestItem item st) ! k) = product_price (guestItems st ! k)
        \<and> product_image (guestItems (addGuestItem item st) ! k) = product_image (guestItems st ! k)
        \<and> vendor_name (guestItems (addGuestItem item st) ! k) = vendor_name (guestItems st ! k))
    \<and> (\<forall>item'. sku item' = sku item \<and> quantity item' = quantity item \<longrightarrow>
          addGuestItem item' st = addGuestItem item st)"
proof (intro conjI allI impI)
  note eq = addGuestItem_present [OF assms]
  show "length (guestItems (addGuestItem item st)) = length (guestItems st)"
    by (simp add: eq)
  fix k assume k: "k < length (guestItems st)"
  then have nth: "guestItems (addGuestItem item st) ! k =
      (if sku (guestItems st ! k) = sku item
       then (guestItems st ! k)\<lparr>quantity := quantity (guestItems st ! k) + quantity item\<rparr>
       else guestItems st ! k)"
    by (simp add: eq)
  show "sku (guestItems st ! k) = sku item \<Longrightarrow>
      guestItems (addGuestItem item st) ! k =
        (guestItems st ! k)\<lparr>quantity := quantity (guestItems st ! k) + quantity item\<rparr>"
    by (simp add: nth)
  show "sku (guestItems st ! k) \<noteq> sku item \<Longrightarrow>
      guestItems (addGuestItem item st) ! k = guestItems st ! k"
    by (simp add: nth)
  show "sku (guestItems (addGuestItem item st) ! k) = sku (guestItems st ! k)"
    by (simp add: nth)
  show "sku_id (guestItems (addGuestItem item st) ! k) = sku_id (guestItems st ! k)"
    by (simp add: nth)
  show "product_id (guestItems (addGuestItem item st) ! k) = product_id (guestItems st ! k)"
    by (simp add: nth)
  show "product_name (guestItems (addGuestItem item st) ! k) = product_name (guestItems st ! k)"
    by (simp add: nth)
  show "product_price (guestItems (addGuestItem item st) ! k) = product_price (guestItems st ! k)"
    by (simp add: nth)
  show "product_image (guestItems (addGuestItem item st) ! k) = product_image (guestItems st ! k)"
    by (simp add: nth)
  show "vendor_name (guestItems (addGuestItem item st) ! k) = vendor_name (guestItems st ! k)"
    by (simp add: nth)
next
  fix item' :: GuestCartItem assume "sku item' = sku item \<and> quantity item' = quantity item"
  moreover have "find (\<lambda>i. sku i = sku item) (guestItems st) \<noteq> None"
    using assms by (simp add: find_sku_None)
  ultimately show "addGuestItem item' st = addGuestItem item st"
    by (auto simp: addGuestItem_def)
qed

theorem addGuestItem_merge_frame_witness:
  "guestItems (addGuestItem (tshirt_repriced 2) \<lparr>guestItems = [mug 1, tshirt 1]\<rparr>) ! 1 = tshirt 3
   \<and> guestItems (addGuestItem (tshirt_repriced 2) \<lparr>guestItems = [mug 1, tshirt 1]\<rparr>) ! 0 = mug 1
   \<and> product_price (guestItems (addGuestItem (tshirt_repriced 2) \<lparr>guestItems = [mug 1, tshirt 1]\<rparr>) ! 1) = ''19.99''
   \<and> addGuestItem (tshirt 2) \<lparr>guestItems = [mug 1, tshirt 1]\<rparr> =
       addGuestItem (tshirt_repriced 2) \<lparr>guestItems = [mug 1, tshirt 1]\<rparr>"
proof -
  have h: "\<exists>i\<in>set (guestItems \<lparr>guestItems = [mug 1, tshirt 1]\<rparr>). sku i = sku (tshirt_repriced 2)"
    by (simp add: example_skus)
  have l: "length (guestItems \<lparr>guestItems = [mug 1, tshirt 1]\<rparr>) = Suc (Suc 0)"
    by simp
  note t = addGuestItem_merge_frame [OF h]
  have lines: "\<forall>k<Suc (Suc 0).
      guestItems (addGuestItem (tshirt_repriced 2) \<lparr>guestItems = [mug 1, tshirt 1]\<rparr>) ! k =
        [mug 1, tshirt 3] ! k
      \<and> product_price (guestItems (addGuestItem (tshirt_repriced 2) \<lparr>guestItems = [mug 1, tshirt 1]\<rparr>) ! k) =
        product_price ([mug 1, tshirt 1] ! k)"
    using t [THEN conjunct2, THEN conjunct1]
    unfolding l All_less_Suc
    by (simp add: example_skus example_quantities example_prices)
  have same: "addGuestItem (tshirt 2) \<lparr>guestItems = [mug 1, tshirt 1]\<rparr> =
       addGuestItem (tshirt_repriced 2) \<lparr>guestItems = [mug 1, tshirt 1]\<rparr>"
    using t [THEN conjunct2, THEN conjunct2, rule_format, of "tshirt 2"]
    by (simp add: example_skus example_quantities)
  show ?thesis
    using lines same unfolding All_less_Suc by (simp add: example_prices)
qed

section \<open>Updating a quantity\<close>

lemma updateGuestItemQuantity_items:
  "guestItems (updateGuestItemQuantity s q st) =
     map (\<lambda>i. if sku i = s then i\<lparr>quantity := q\<rparr> else i) (guestItems st)"
  by (simp add: updateGuestItemQuantity_def)

lemma removeGuestItem_items:
  "guestItems (removeGuestItem s st) = filter (\<lambda>i. sku i \<noteq> s) (guestItems st)"
  by (simp add: removeGuestItem_def)

lemma update_eq_remove_iff:
  "updateGuestItemQuantity s q st = removeGuestItem s st \<longleftrightarrow> (\<forall>i\<in>set (guestItems st). sku i \<noteq> s)"
proof
  assume eq: "updateGuestItemQuantity s q st = removeGuestItem s st"
  then have "length (guestItems (updateGuestItemQuantity s q st)) = length (guestItems (removeGuestItem s st))"
    by simp
  then have "length (filter (\<lambda>i. sku i \<noteq> s) (guestItems st)) = length (guestItems st)"
    by (simp add: updateGuestItemQuantity_items removeGuestItem_items)
  then show "\<forall>i\<in>set (guestItems st). sku i \<noteq> s"
    using length_filter_less [of _ "guestItems st" "\<lambda>i. sku i \<noteq> s"] by fastforce
next
  assume none: "\<forall>i\<in>set (guestItems st). sku i \<noteq> s"
  then have "map (\<lambda>i. if sku i = s then i\<lparr>quantity := q\<rparr> else i) (guestItems st) = guestItems st"
    by (intro map_idI) simp
  moreover from none have "filter (\<lambda>i. sku i \<noteq> s) (guestItems st) = guestItems st"
    by simp
  ultimately show "updateGuestItemQuantity s q st = removeGuestItem s st"
    by (simp add: updateGuestItemQuantity_def removeGuestItem_def)
qed

text \<open>
  C2 as stated fails: an update to \<open>0\<close> keeps the line, with quantity \<open>0\<close>, where
  \<open>removeGuestItem\<close> deletes it.
\<close>

theorem updateGuestItemQuantity_not_remove_counterexample:
  "(0::int) \<le> 0
   \<and> updateGuestItemQuantity ''TSHIRT-M'' 0 \<lparr>guestItems = [tshirt 1]\<rparr> \<noteq>
       removeGuestItem ''TSHIRT-M'' \<lparr>guestItems = [tshirt 1]\<rparr>
   \<and> guestItems (updateGuestItemQuantity ''TSHIRT-M'' 0 \<lparr>guestItems = [tshirt 1]\<rparr>) = [tshirt 0]
   \<and> guestItems (removeGuestItem ''TSHIRT-M'' \<lparr>guestItems = [tshirt 1]\<rparr>) = []"
  by (simp add: updateGuestItemQuantity_def removeGuestItem_def example_skus example_quantities)

text \<open>
  C2, amended. \<open>updateGuestItemQuantity\<close> keeps every line in place and sets the
  quantity of each line with the given SKU to exactly \<open>q\<close>, for every integer
  \<open>q\<close>; the other lines are unchanged. It gives the state \<open>removeGuestItem\<close> gives
  exactly when the cart has no line with that SKU; after \<open>removeGuestItem\<close> no line
  has the SKU.
\<close>

theorem updateGuestItemQuantity_sets_exactly:
  "length (guestItems (updateGuestItemQuantity s q st)) = length (guestItems st)
   \<and> (\<forall>k<length (guestItems st).
         (sku (guestItems st ! k) = s \<longrightarrow>
            guestItems (updateGuestItemQuantity s q st) ! k = (guestItems st ! k)\<lparr>quantity := q\<rparr>)
       \<and> (sku (guestItems st ! k) \<noteq> s \<longrightarrow>
            guestItems (updateGuestItemQuantity s q st) ! k = guestItems st ! k))
   \<and> (updateGuestItemQuantity s q st = removeGuestItem s st \<longleftrightarrow>
        (\<forall>i\<in>set (guestItems st). sku i \<noteq> s))
   \<and> (\<forall>i\<in>set (guestItems (removeGuestItem s st)). sku i \<noteq> s)"
  using update_eq_remove_iff [of s q st]
  by (simp add: updateGuestItemQuantity_items removeGuestItem_items)

theorem updateGuestItemQuantity_sets_exactly_witness:
  "guestItems (updateGuestItemQuantity ''TSHIRT-M'' 5 \<lparr>guestItems = [mug 1, tshirt 1]\<rparr>) ! 1 = tshirt 5
   \<and> guestItems (updateGuestItemQuantity ''TSHIRT-M'' 5 \<lparr>guestItems = [mug 1, tshirt 1]\<rparr>) ! 0 = mug 1
   \<and> guestItems (updateGuestItemQuantity ''TSHIRT-M'' (- 2) \<lparr>guestItems = [mug 1, tshirt 1]\<rparr>) ! 1 = tshirt (- 2)
   \<and> updateGuestItemQuantity ''TSHIRT-M'' 0 \<lparr>guestItems = [mug 1]\<rparr> =
       removeGuestItem ''TSHIRT-M'' \<lparr>guestItems = [mug 1]\<rparr>"
proof -
  have l: "length (guestItems \<lparr>guestItems = [mug 1, tshirt 1]\<rparr>) = Suc (Suc 0)"
    by simp
  have a: "guestItems (updateGuestItemQuantity ''TSHIRT-M'' 5 \<lparr>guestItems = [mug 1, tshirt 1]\<rparr>) ! 1 = tshirt 5
      \<and> guestItems (updateGuestItemQuantity ''TSHIRT-M'' 5 \<lparr>guestItems = [mug 1, tshirt 1]\<rparr>) ! 0 = mug 1"
    using updateGuestItemQuantity_sets_exactly
            [of "''TSHIRT-M''" 5 "\<lparr>guestItems = [mug 1, tshirt 1]\<rparr>", THEN conjunct2, THEN conjunct1]
    unfolding l All_less_Suc by (simp add: example_skus example_quantities)
  have b: "guestItems (updateGuestItemQuantity ''TSHIRT-M'' (- 2) \<lparr>guestItems = [mug 1, tshirt 1]\<rparr>) ! 1 = tshirt (- 2)"
    using updateGuestItemQuantity_sets_exactly
            [of "''TSHIRT-M''" "- 2" "\<lparr>guestItems = [mug 1, tshirt 1]\<rparr>", THEN conjunct2, THEN conjunct1]
    unfolding l All_less_Suc by (simp add: example_skus example_quantities)
  have c: "updateGuestItemQuantity ''TSHIRT-M'' 0 \<lparr>guestItems = [mug 1]\<rparr> =
       removeGuestItem ''TSHIRT-M'' \<lparr>guestItems = [mug 1]\<rparr>"
    using updateGuestItemQuantity_sets_exactly
            [of "''TSHIRT-M''" 0 "\<lparr>guestItems = [mug 1]\<rparr>", THEN conjunct2, THEN conjunct2, THEN conjunct1]
    by (simp add: example_skus)
  show ?thesis using a b c by simp
qed

section \<open>Quantities of at least one\<close>

text \<open>
  C4 as stated fails: \<open>updateGuestItemQuantity\<close> with quantity \<open>0\<close> turns a cart that
  satisfies the invariant into one with a line of quantity \<open>0\<close>.
\<close>

theorem quantity_invariant_counterexample:
  "quantitiesPositive \<lparr>guestItems = [tshirt 1]\<rparr>
   \<and> \<not> quantitiesPositive (updateGuestItemQuantity ''TSHIRT-M'' 0 \<lparr>guestItems = [tshirt 1]\<rparr>)
   \<and> guestItems (updateGuestItemQuantity ''TSHIRT-M'' 0 \<lparr>guestItems = [tshirt 1]\<rparr>) = [tshirt 0]"
  by (simp add: quantitiesPositive_def updateGuestItemQuantity_def example_skus example_quantities)

lemma quantitiesPositive_add:
  "\<lbrakk>quantitiesPositive st; 1 \<le> quantity item\<rbrakk> \<Longrightarrow> quantitiesPositive (addGuestItem item st)"
  by (cases "find (\<lambda>i. sku i = sku item) (guestItems st)")
     (auto simp: quantitiesPositive_def addGuestItem_def)

lemma quantitiesPositive_remove:
  "quantitiesPositive st \<Longrightarrow> quantitiesPositive (removeGuestItem s st)"
  by (simp add: quantitiesPositive_def removeGuestItem_def)

lemma quantitiesPositive_update:
  "\<lbrakk>quantitiesPositive st; 1 \<le> q\<rbrakk> \<Longrightarrow> quantitiesPositive (updateGuestItemQuantity s q st)"
  by (auto simp: quantitiesPositive_def updateGuestItemQuantity_def)

lemma quantitiesPositive_clear: "quantitiesPositive (clearGuestCart st)"
  by (simp add: quantitiesPositive_def clearGuestCart_def)

lemma quantitiesPositive_handle:
  "quantitiesPositive st \<Longrightarrow> quantitiesPositive (handleGuestUpdateQuantity s cur change st)"
  by (simp add: handleGuestUpdateQuantity_def Let_def quantitiesPositive_update)

lemma quantitiesPositive_step:
  "\<lbrakk>quantitiesPositive (cartStore s); guardedEvent ev\<rbrakk> \<Longrightarrow> quantitiesPositive (cartStore (step ev s))"
  by (cases ev)
     (simp_all add: guardedEvent_def quantitiesPositive_add quantitiesPositive_remove
        quantitiesPositive_update quantitiesPositive_clear)

lemma quantitiesPositive_run:
  "\<lbrakk>quantitiesPositive (cartStore s); \<forall>ev\<in>set evs. guardedEvent ev\<rbrakk> \<Longrightarrow>
     quantitiesPositive (cartStore (run evs s))"
  unfolding run_def
  by (induction evs arbitrary: s) (simp_all add: quantitiesPositive_step)

text \<open>
  C4, amended. From the empty cart, every sequence of store operations in which each
  added item and each new quantity of an update is at least one leaves every line with a
  quantity of at least one; the cart page's \<open>handleGuestUpdateQuantity\<close>, which calls
  the update only with a positive quantity, keeps the invariant for every argument.
\<close>

theorem quantity_invariant_guarded:
  assumes g: "\<forall>ev\<in>set evs. guardedEvent ev"
  shows "quantitiesPositive (cartStore (run evs initialAppState))
     \<and> quantitiesPositive (handleGuestUpdateQuantity s cur change (cartStore (run evs initialAppState)))"
proof -
  have "quantitiesPositive (cartStore initialAppState)"
    by (simp add: initialAppState_def initialCartState_def quantitiesPositive_def)
  then have inv: "quantitiesPositive (cartStore (run evs initialAppState))"
    using g by (rule quantitiesPositive_run)
  then show "quantitiesPositive (cartStore (run evs initialAppState))
     \<and> quantitiesPositive (handleGuestUpdateQuantity s cur change (cartStore (run evs initialAppState)))"
    by (simp add: quantitiesPositive_handle)
qed

theorem quantity_invariant_guarded_witness:
  "guestItems (cartStore (run [AddGuestItem (tshirt 2), UpdateGuestItemQuantity ''TSHIRT-M'' 1,
       AddGuestItem (mug 1), RemoveGuestItem ''MUG''] initialAppState)) = [tshirt 1]
   \<and> quantitiesPositive (cartStore (run [AddGuestItem (tshirt 2), UpdateGuestItemQuantity ''TSHIRT-M'' 1,
       AddGuestItem (mug 1), RemoveGuestItem ''MUG''] initialAppState))
   \<and> handleGuestUpdateQuantity ''TSHIRT-M'' 1 (- 1)
       (cartStore (run [AddGuestItem (tshirt 2), UpdateGuestItemQuantity ''TSHIRT-M'' 1,
          AddGuestItem (mug 1), RemoveGuestItem ''MUG''] initialAppState)) =
       \<lparr>guestItems = [tshirt 1]\<rparr>"
proof -
  have g: "\<forall>ev\<in>set [AddGuestItem (tshirt 2), UpdateGuestItemQuantity ''TSHIRT-M'' 1,
       AddGuestItem (mug 1), RemoveGuestItem ''MUG'']. guardedEvent ev"
    by (simp add: guardedEvent_def example_quantities)
  have v: "cartStore (run [AddGuestItem (tshirt 2), UpdateGuestItemQuantity ''TSHIRT-M'' 1,
       AddGuestItem (mug 1), RemoveGuestItem ''MUG''] initialAppState) = \<lparr>guestItems = [tshirt 1]\<rparr>"
    by (simp add: run_def initialAppState_def initialCartState_def addGuestItem_def
          updateGuestItemQuantity_def removeGuestItem_def example_skus example_quantities)
  show ?thesis
    using quantity_invariant_guarded [OF g, of "''TSHIRT-M''" 1 "- 1"]
    by (simp add: v handleGuestUpdateQuantity_def)
qed

section \<open>The total and the count\<close>

lemma number_arith [simp]:
  "Fin x + Fin y = Fin (x + y)" "NaN + a = NaN" "a + NaN = NaN"
  "Fin x * Fin y = Fin (x * y)" "NaN * a = NaN" "a * NaN = NaN" "(0::number) = Fin 0"
  by (simp_all add: plus_number_def times_number_def zero_number_def, (cases a; simp)+)

lemma foldl_NaN:
  "foldl (\<lambda>total item. total + f item) NaN xs = NaN"
  by (induction xs) simp_all

lemma foldl_total_NaN:
  "\<exists>i\<in>set xs. f i = NaN \<Longrightarrow> foldl (\<lambda>total item. total + f item) acc xs = NaN"
proof (induction xs arbitrary: acc)
  case Nil
  then show ?case by simp
next
  case (Cons x xs)
  show ?case
  proof (cases "f x = NaN")
    case True
    then show ?thesis by (simp add: foldl_NaN)
  next
    case False
    with Cons.prems have "\<exists>i\<in>set xs. f i = NaN" by simp
    then show ?thesis by (simp add: Cons.IH)
  qed
qed

text \<open>
  C3 as stated fails: a line whose price does not parse is not counted as \<open>0\<close>. Its
  \<open>parseFloat\<close> is \<open>NaN\<close>, and the total of the cart is \<open>NaN\<close>, not the total of
  the other lines.
\<close>

theorem getGuestCartTotal_unparsable_counterexample:
  "parseFloat (product_price (corrupt 1)) = NaN
   \<and> parseFloat (product_price (ten 2)) = Fin 10
   \<and> getGuestCartTotal \<lparr>guestItems = [corrupt 1, ten 2]\<rparr> = NaN
   \<and> getGuestCartTotal \<lparr>guestItems = [ten 2]\<rparr> = Fin 20
   \<and> getGuestCartTotal \<lparr>guestItems = [corrupt 1, ten 2]\<rparr> \<noteq> getGuestCartTotal \<lparr>guestItems = [ten 2]\<rparr>"
  by (simp add: getGuestCartTotal_def corrupt_def ten_def parseFloat_examples of_quantity_def)

text \<open>
  C3, amended. \<open>getGuestCartTotal\<close> returns a number for every cart (it does not
  throw); when the price of some line does not parse, that number is \<open>NaN\<close>, whatever
  the other lines are.
\<close>

theorem getGuestCartTotal_unparsable_NaN:
  assumes "\<exists>i\<in>set (guestItems st). parseFloat (product_price i) = NaN"
  shows "getGuestCartTotal st = NaN"
proof -
  from assms obtain i where i: "i \<in> set (guestItems st)" "parseFloat (product_price i) = NaN"
    by blast
  then have "parseFloat (product_price i) * of_quantity (quantity i) = NaN"
    by simp
  with i(1) have "\<exists>i\<in>set (guestItems st). parseFloat (product_price i) * of_quantity (quantity i) = NaN"
    by blast
  then show ?thesis
    unfolding getGuestCartTotal_def by (rule foldl_total_NaN)
qed

theorem getGuestCartTotal_unparsable_NaN_witness:
  "parseFloat (product_price (corrupt 1)) = NaN
   \<and> getGuestCartTotal \<lparr>guestItems = [ten 2, corrupt 1, ten 1]\<rparr> = NaN"
proof -
  have h: "\<exists>i\<in>set (guestItems \<lparr>guestItems = [ten 2, corrupt 1, ten 1]\<rparr>). parseFloat (product_price i) = NaN"
    by (simp add: corrupt_def parseFloat_examples)
  show ?thesis
    using getGuestCartTotal_unparsable_NaN [OF h] by (simp add: corrupt_def parseFloat_examples)
qed

lemma foldl_plus_sum_list:
  fixes acc :: "'a::comm_monoid_add"
  shows "foldl (\<lambda>total item. total + f item) acc xs = acc + sum_list (map f xs)"
  by (induction xs arbitrary: acc) (simp_all add: add.assoc)

lemma isFinite_Fin: "isFinite a \<Longrightarrow> a = Fin (finite_value a)"
  by (cases a) (simp_all add: finite_value_def)

lemma sum_list_Fin:
  "\<forall>i\<in>set xs. isFinite (f i) \<Longrightarrow>
     sum_list (map f xs) = Fin (sum_list (map (\<lambda>i. finite_value (f i)) xs))"
proof (induction xs)
  case Nil
  then show ?case by simp
next
  case (Cons x xs)
  then obtain p where "f x = Fin p" by (cases "f x") auto
  with Cons show ?case by (simp add: finite_value_def)
qed



section \<open>The pages agree\<close>



section \<open>A failed checkout\<close>

lemma onError_store: "store (onError detail page) = store page"
  by (simp add: onError_def)

lemma onError_newEffects:
  "newEffects page (onError detail page) =
     [ToastError (if truthy detail then the detail else ''Checkout failed''), ConsoleError]"
  by (simp add: onError_def newEffects_def)

lemma onSuccess_store:
  "store (onSuccess isAuth data page) = (if isAuth then store page else clearGuestCart (store page))"
  by (simp add: onSuccess_def Let_def)

lemma onSuccess_clear_logged:
  "CallClearGuestCart \<in> set (newEffects page (onSuccess isAuth data page)) \<longleftrightarrow> \<not> isAuth"
  by (simp add: onSuccess_def Let_def newEffects_def)

text \<open>
  C7. When the checkout call rejects, the guest cart is unchanged and \<open>clearGuestCart\<close>
  is not called. \<open>clearGuestCart\<close> is called, and the cart changes, only when the
  call resolves and the shopper is a guest; then the guest cart is empty afterwards.
\<close>

theorem checkout_failure_keeps_guest_cart:
  "store (checkoutMutation isAuth (Rejected detail) page) = store page
   \<and> CallClearGuestCart \<notin> set (newEffects page (checkoutMutation isAuth (Rejected detail) page))
   \<and> (CallClearGuestCart \<in> set (newEffects page (checkoutMutation isAuth result page)) \<longrightarrow>
        (\<exists>data. result = Resolved data) \<and> \<not> isAuth)
   \<and> (store (checkoutMutation isAuth result page) \<noteq> store page \<longrightarrow>
        (\<exists>data. result = Resolved data) \<and> \<not> isAuth)
   \<and> (\<not> isAuth \<longrightarrow> guestItems (store (checkoutMutation isAuth (Resolved data) page)) = [])"
proof (intro conjI impI)
  show "store (checkoutMutation isAuth (Rejected detail) page) = store page"
    by (simp add: checkoutMutation_def onError_store)
  show "CallClearGuestCart \<notin> set (newEffects page (checkoutMutation isAuth (Rejected detail) page))"
    by (simp add: checkoutMutation_def onError_newEffects)
  show "\<exists>data. result = Resolved data"
    if "CallClearGuestCart \<in> set (newEffects page (checkoutMutation isAuth result page))"
    using that by (cases result) (simp_all add: checkoutMutation_def onError_newEffects)
  show "\<not> isAuth"
    if "CallClearGuestCart \<in> set (newEffects page (checkoutMutation isAuth result page))"
    using that by (cases result) (simp_all add: checkoutMutation_def onError_newEffects onSuccess_clear_logged)
  show "\<exists>data. result = Resolved data"
    if "store (checkoutMutation isAuth result page) \<noteq> store page"
    using that by (cases result) (simp_all add: checkoutMutation_def onError_store)
  show "\<not> isAuth"
    if "store (checkoutMutation isAuth result page) \<noteq> store page"
    using that by (cases result) (auto simp: checkoutMutation_def onError_store onSuccess_store)
  show "guestItems (store (checkoutMutation isAuth (Resolved data) page)) = []" if "\<not> isAuth"
    using that by (simp add: checkoutMutation_def onSuccess_store clearGuestCart_def)
qed

theorem checkout_failure_keeps_guest_cart_witness:
  "store (checkoutMutation False (Rejected (Some ''Out of stock''))
      \<lparr>store = \<lparr>guestItems = [ten 2, mug 1]\<rparr>, effects = []\<rparr>) = \<lparr>guestItems = [ten 2, mug 1]\<rparr>
   \<and> effects (checkoutMutation False (Rejected (Some ''Out of stock''))
      \<lparr>store = \<lparr>guestItems = [ten 2, mug 1]\<rparr>, effects = []\<rparr>) = [ToastError ''Out of stock'', ConsoleError]
   \<and> CallClearGuestCart \<in> set (newEffects \<lparr>store = \<lparr>guestItems = [ten 2, mug 1]\<rparr>, effects = []\<rparr>
        (checkoutMutation False (Resolved \<lparr>checkout_url = None, order_id = Some ''o-1''\<rparr>)
           \<lparr>store = \<lparr>guestItems = [ten 2, mug 1]\<rparr>, effects = []\<rparr>))
   \<and> guestItems (store (checkoutMutation False (Resolved \<lparr>checkout_url = None, order_id = Some ''o-1''\<rparr>)
        \<lparr>store = \<lparr>guestItems = [ten 2, mug 1]\<rparr>, effects = []\<rparr>)) = []"
proof -
  have g: "\<not> False" by simp
  note t = checkout_failure_keeps_guest_cart [of False "Some ''Out of stock''"
      "\<lparr>store = \<lparr>guestItems = [ten 2, mug 1]\<rparr>, effects = []\<rparr>"
      "Resolved \<lparr>checkout_url = None, order_id = Some ''o-1''\<rparr>"
      "\<lparr>checkout_url = None, order_id = Some ''o-1''\<rparr>"]
  have e: "effects (checkoutMutation False (Rejected (Some ''Out of stock''))
      \<lparr>store = \<lparr>guestItems = [ten 2, mug 1]\<rparr>, effects = []\<rparr>) = [ToastError ''Out of stock'', ConsoleError]"
    by (simp add: checkoutMutation_def onError_def truthy_def)
  have c: "CallClearGuestCart \<in> set (newEffects \<lparr>store = \<lparr>guestItems = [ten 2, mug 1]\<rparr>, effects = []\<rparr>
        (checkoutMutation False (Resolved \<lparr>checkout_url = None, order_id = Some ''o-1''\<rparr>)
           \<lparr>store = \<lparr>guestItems = [ten 2, mug 1]\<rparr>, effects = []\<rparr>))"
    by (simp add: checkoutMutation_def onSuccess_clear_logged)
  show ?thesis
    using t [THEN conjunct1] t [THEN conjunct2, THEN conjunct2, THEN conjunct1, THEN mp, OF c]
      t [THEN conjunct2, THEN conjunct2, THEN conjunct2, THEN conjunct2, THEN mp, OF g] e c
    by simp
qed

section \<open>Logout and the guest cart\<close>

lemma login_examples:
  "isAuthenticated (fst (login True (Some alice) st))"
  by (simp add: login_def fetchUser_def)

text \<open>
  C8 as stated fails: a line added as a guest is still in the guest cart after a login
  followed by a logout.
\<close>

theorem logout_keeps_guest_cart_counterexample:
  "guestItems (cartStore initialAppState) = []
   \<and> isAuthenticated (auth (run [AddGuestItem (tshirt 1), Login True (Some alice)] initialAppState))
   \<and> \<not> isAuthenticated (auth (step (Logout True)
        (run [AddGuestItem (tshirt 1), Login True (Some alice)] initialAppState)))
   \<and> guestItems (cartStore (step (Logout True)
        (run [AddGuestItem (tshirt 1), Login True (Some alice)] initialAppState))) = [tshirt 1]
   \<and> guestItems (cartStore (step (Logout True)
        (run [AddGuestItem (tshirt 1), Login True (Some alice)] initialAppState))) \<noteq> []"
  by (simp add: run_def initialAppState_def initialCartState_def addGuestItem_def
        login_examples logout_def)

text \<open>
  C8, amended. A logout leaves the guest cart exactly as it was, as a login does; it
  clears the user and the authenticated flag only. The guest cart after a logout is the
  one the last cart-store operation left.
\<close>

theorem logout_leaves_guest_cart:
  "cartStore (step (Logout logoutOk) s) = cartStore s
   \<and> cartStore (step (Login loginOk profile) s) = cartStore s
   \<and> \<not> isAuthenticated (auth (step (Logout logoutOk) s))
   \<and> user (auth (step (Logout logoutOk) s)) = None"
  by (simp add: logout_def)

section \<open>Reordering the additions\<close>

lemma fst_bumpKey [simp]: "fst (bumpKey k l) = fst l"
  by (cases l) (simp add: bumpKey_def)

lemma bumpKey_other: "fst l \<noteq> fst k \<Longrightarrow> bumpKey k l = l"
  by (cases l) (simp add: bumpKey_def)

lemma bumpKey_commute: "bumpKey k (bumpKey k' l) = bumpKey k' (bumpKey k l)"
  by (cases l) (simp add: bumpKey_def)

lemma bumpKey_same:
  "\<lbrakk>fst k = fst k'; snd (snd k) = snd (snd k')\<rbrakk> \<Longrightarrow> bumpKey k k' = bumpKey k' k"
  by (cases k; cases k') (simp add: bumpKey_def)

lemma skus_image_bumpKey [simp]: "fst ` bumpKey k ` A = fst ` A"
  by (simp add: image_image)

lemma image_bumpKey_absent:
  "fst k \<notin> fst ` set_mset M \<Longrightarrow> image_mset (bumpKey k) M = M"
  by (rule multiset.map_ident_strong) (metis bumpKey_other imageI)

lemma addKey_present: "fst k \<in> fst ` set_mset M \<Longrightarrow> addKey k M = image_mset (bumpKey k) M"
  by (simp add: addKey_def)

lemma addKey_absent: "fst k \<notin> fst ` set_mset M \<Longrightarrow> addKey k M = add_mset k M"
  by (simp add: addKey_def)

lemma skus_bumped: "fst ` set_mset (image_mset (bumpKey k) M) = fst ` set_mset M"
  by (simp only: set_image_mset skus_image_bumpKey)

lemma image_bumpKey_commute:
  "image_mset (bumpKey k) (image_mset (bumpKey k') M) = image_mset (bumpKey k') (image_mset (bumpKey k) M)"
proof -
  have "bumpKey k \<circ> bumpKey k' = bumpKey k' \<circ> bumpKey k"
    by (rule ext) (simp only: comp_apply bumpKey_commute [of k k'])
  then show ?thesis
    by (simp only: multiset.map_comp)
qed

lemma addKey_commute:
  assumes "fst k = fst k' \<longrightarrow> snd (snd k) = snd (snd k')"
  shows "addKey k (addKey k' M) = addKey k' (addKey k M)"
proof -
  consider (both) "fst k \<in> fst ` set_mset M" "fst k' \<in> fst ` set_mset M"
    | (left) "fst k \<in> fst ` set_mset M" "fst k' \<notin> fst ` set_mset M"
    | (right) "fst k \<notin> fst ` set_mset M" "fst k' \<in> fst ` set_mset M"
    | (same) "fst k \<notin> fst ` set_mset M" "fst k' \<notin> fst ` set_mset M" "fst k = fst k'"
    | (neither) "fst k \<notin> fst ` set_mset M" "fst k' \<notin> fst ` set_mset M" "fst k \<noteq> fst k'"
    by blast
  then show ?thesis
  proof cases
    case both
    have "addKey k (addKey k' M) = image_mset (bumpKey k) (image_mset (bumpKey k') M)"
      using both by (simp only: addKey_present skus_bumped)
    moreover have "addKey k' (addKey k M) = image_mset (bumpKey k') (image_mset (bumpKey k) M)"
      using both by (simp only: addKey_present skus_bumped)
    ultimately show ?thesis
      by (simp only: image_bumpKey_commute)
  next
    case left
    then have ne: "fst k' \<noteq> fst k" by metis
    have "fst k \<in> fst ` set_mset (add_mset k' M)"
      using left(1) by simp
    then have "addKey k (addKey k' M) = image_mset (bumpKey k) (add_mset k' M)"
      using left(2) by (simp add: addKey_absent addKey_present)
    also have "\<dots> = add_mset k' (image_mset (bumpKey k) M)"
      using bumpKey_other [OF ne] by simp
    finally have l: "addKey k (addKey k' M) = add_mset k' (image_mset (bumpKey k) M)" .
    have "addKey k' (addKey k M) = add_mset k' (image_mset (bumpKey k) M)"
      using left by (simp only: addKey_present addKey_absent skus_bumped not_False_eq_True)
    with l show ?thesis by simp
  next
    case right
    then have ne: "fst k \<noteq> fst k'" by metis
    have "fst k' \<in> fst ` set_mset (add_mset k M)"
      using right(2) by simp
    then have "addKey k' (addKey k M) = image_mset (bumpKey k') (add_mset k M)"
      using right(1) by (simp add: addKey_absent addKey_present)
    also have "\<dots> = add_mset k (image_mset (bumpKey k') M)"
      using bumpKey_other [OF ne] by simp
    finally have r: "addKey k' (addKey k M) = add_mset k (image_mset (bumpKey k') M)" .
    have "addKey k (addKey k' M) = add_mset k (image_mset (bumpKey k') M)"
      using right by (simp only: addKey_present addKey_absent skus_bumped not_False_eq_True)
    with r show ?thesis by simp
  next
    case same
    with assms have p: "snd (snd k) = snd (snd k')" by simp
    have "fst k \<in> fst ` set_mset (add_mset k' M)"
      using same(3) by simp
    then have "addKey k (addKey k' M) = image_mset (bumpKey k) (add_mset k' M)"
      using same(2) by (simp add: addKey_absent addKey_present)
    also have "\<dots> = add_mset (bumpKey k k') M"
      using image_bumpKey_absent [OF same(1)] by simp
    finally have l: "addKey k (addKey k' M) = add_mset (bumpKey k k') M" .
    have "fst k' \<in> fst ` set_mset (add_mset k M)"
      using same(3) by simp
    then have "addKey k' (addKey k M) = image_mset (bumpKey k') (add_mset k M)"
      using same(1) by (simp add: addKey_absent addKey_present)
    also have "\<dots> = add_mset (bumpKey k' k) M"
      using image_bumpKey_absent [OF same(2)] by simp
    finally have r: "addKey k' (addKey k M) = add_mset (bumpKey k' k) M" .
    show ?thesis
      using bumpKey_same [OF same(3) p] by (simp only: l r)
  next
    case neither
    have "fst k \<notin> fst ` set_mset (add_mset k' M)"
      using neither by simp
    then have l: "addKey k (addKey k' M) = add_mset k (add_mset k' M)"
      using neither(2) by (simp add: addKey_absent)
    have "fst k' \<notin> fst ` set_mset (add_mset k M)"
      using neither by auto
    then have r: "addKey k' (addKey k M) = add_mset k' (add_mset k M)"
      using neither(1) by (simp add: addKey_absent)
    show ?thesis
      by (simp only: l r add_mset_commute)
  qed
qed

lemma skus_lineKeys: "fst ` set_mset (lineKeys st) = sku ` set (guestItems st)"
proof -
  have "fst \<circ> lineKey = sku"
    by (rule ext) (simp add: lineKey_def)
  then show ?thesis
    by (simp add: lineKeys_def image_comp)
qed

lemma fst_lineKey: "fst (lineKey a) = sku a"
  by (simp add: lineKey_def)

lemma lineKeys_addGuestItem: "lineKeys (addGuestItem a st) = addKey (lineKey a) (lineKeys st)"
proof (cases "\<exists>i\<in>set (guestItems st). sku i = sku a")
  case True
  then have "fst (lineKey a) \<in> fst ` set_mset (lineKeys st)"
    unfolding skus_lineKeys fst_lineKey by (metis imageI)
  moreover have "map lineKey (map (\<lambda>i. if sku i = sku a then i\<lparr>quantity := quantity i + quantity a\<rparr> else i) (guestItems st))
      = map (bumpKey (lineKey a)) (map lineKey (guestItems st))"
    by (simp add: lineKey_def bumpKey_def)
  then have "lineKeys (addGuestItem a st) = image_mset (bumpKey (lineKey a)) (lineKeys st)"
    unfolding lineKeys_def addGuestItem_present [OF True] by (simp only: mset_map)
  ultimately show ?thesis
    by (simp add: addKey_def)
next
  case False
  then have none: "\<forall>i\<in>set (guestItems st). sku i \<noteq> sku a"
    by simp
  then have "sku a \<notin> sku ` set (guestItems st)"
    by (simp add: image_iff) metis
  then have absent: "fst (lineKey a) \<notin> fst ` set_mset (lineKeys st)"
    by (simp only: skus_lineKeys fst_lineKey not_False_eq_True)
  have "lineKeys (addGuestItem a st) = mset (map lineKey (guestItems st @ [a]))"
    by (simp only: lineKeys_def addGuestItem_absent [OF none])
  also have "\<dots> = add_mset (lineKey a) (lineKeys st)"
    by (simp add: lineKeys_def)
  finally show ?thesis
    by (simp only: addKey_absent [OF absent])
qed

lemma lineKeys_addGuestItems:
  "lineKeys (addGuestItems adds st) = fold addKey (map lineKey adds) (lineKeys st)"
proof (induction adds arbitrary: st)
  case Nil
  show ?case by (simp add: addGuestItems_Nil)
next
  case (Cons a adds)
  show ?case
    by (simp add: addGuestItems_Cons Cons.IH lineKeys_addGuestItem)
qed

lemma getGuestCartTotal_lineKeys:
  "getGuestCartTotal st = sum_mset (image_mset lineAmount (lineKeys st))"
proof -
  have "getGuestCartTotal st = sum_list (map lineAmount (map lineKey (guestItems st)))"
    by (simp add: getGuestCartTotal_def foldl_plus_sum_list lineAmount_def lineKey_def comp_def
          del: number_arith(7))
  also have "\<dots> = sum_mset (mset (map lineAmount (map lineKey (guestItems st))))"
    by (simp only: sum_mset_sum_list)
  also have "\<dots> = sum_mset (image_mset lineAmount (lineKeys st))"
    by (simp only: lineKeys_def mset_map)
  finally show ?thesis .
qed




end
